theory Spec2Isabelle
  imports Complex_Main "HOL-Library.AList"
begin

section \<open>Data model (models.py)\<close>

text \<open>
  The currency converter resolves a rate through a Redis cache, an HTTP rate provider and
  a static fallback table. Python floats are modelled as \<^typ>\<open>real\<close> (no rounding error,
  no NaN, no infinity); timestamps (\<^verbatim>\<open>datetime.now()\<close>) and log lines are left out.
\<close>

datatype currency = USD | EUR | GBP | JPY | INR | AED | UZS

fun currency_value :: "currency \<Rightarrow> string" where
  "currency_value USD = ''USD''"
| "currency_value EUR = ''EUR''"
| "currency_value GBP = ''GBP''"
| "currency_value JPY = ''JPY''"
| "currency_value INR = ''INR''"
| "currency_value AED = ''AED''"
| "currency_value UZS = ''UZS''"

record conversion_request =
  amount :: real
  from_currency :: currency
  to_currency :: currency

record conversion_response =
  resp_amount :: real
  resp_from_currency :: currency
  resp_to_currency :: currency
  converted_amount :: real
  rate :: real
  cached :: bool

text \<open>
  \<^verbatim>\<open>ExchangeRateData.rates\<close> is a Python dict decoded from JSON: an association list in
  insertion order, read with \<^const>\<open>map_of\<close> (\<^verbatim>\<open>dict.get\<close>), its keys being
  \<^verbatim>\<open>map fst\<close>.
\<close>

record exchange_rate_data =
  rates :: "(string \<times> real) list"
  base :: currency

text \<open>
  Every exception the code raises is a value. The source raises \<^verbatim>\<open>ValueError\<close> with a
  message for most of them; one constructor stands for each message.
\<close>

datatype error =
    Amount_not_positive
  | Request_error
  | Http_status_error nat
  | Json_decode_error
  | Api_error string
  | Rate_not_found currency currency "string list"
  | No_rates_found currency "currency list"
  | Could_not_get_rate currency currency
  | All_batch_failed
  | Redis_failure

section \<open>The outside world: Redis and the provider's HTTP API\<close>

text \<open>
  A value held by Redis is either the text \<^verbatim>\<open>json.dumps\<close> writes for a float (which
  \<^verbatim>\<open>json.loads\<close> reads back as the same float) or bytes that \<^verbatim>\<open>json.loads\<close> rejects.
\<close>

datatype redis_value = Json_float real | Not_json string

definition json_dumps :: "real \<Rightarrow> redis_value" where
  "json_dumps v = Json_float v"

fun json_loads :: "redis_value \<Rightarrow> error + real" where
  "json_loads (Json_float v) = Inr v"
| "json_loads (Not_json b) = Inl Json_decode_error"

text \<open>
  The query parameters of one GET. \<^verbatim>\<open>symbols\<close> is the comma-joined list of codes; the
  model keeps the set of codes it lists (\<^verbatim>\<open>get_multiple_rates\<close> builds the list from
  a Python set, whose order is unspecified).
\<close>

record api_request =
  access_key :: "string option"
  base_param :: "string option"
  symbols :: "currency set option"

record api_body =
  success :: "bool option"
  error_info :: "string option option"
  body_rates :: "(string \<times> real) list option"

datatype http_reply =
    Transport_failure
  | Bad_status nat
  | Body_not_json
  | Json api_body

datatype event =
    Redis_get string
  | Redis_setex string int redis_value
  | Redis_delete string
  | Redis_flushdb
  | Redis_exists string
  | Http_get api_request

text \<open>
  \<^verbatim>\<open>redis_client\<close>: \<^verbatim>\<open>RedisCache._client is not None\<close>. \<^verbatim>\<open>redis_up\<close>: the server answers
  (otherwise every command raises). \<^verbatim>\<open>redis_db\<close>: key to value and TTL in seconds; no clock
  runs, so entries do not expire inside a run. \<^verbatim>\<open>api\<close>: the provider's reply to a request,
  given everything that happened before. \<^verbatim>\<open>events\<close>: the I/O performed, oldest first.
\<close>

record world =
  redis_client :: bool
  redis_up :: bool
  redis_db :: "string \<rightharpoonup> redis_value \<times> int"
  api :: "event list \<Rightarrow> api_request \<Rightarrow> http_reply"
  events :: "event list"

definition emit :: "event \<Rightarrow> world \<Rightarrow> world" where
  "emit e w = w\<lparr>events := events w @ [e]\<rparr>"

text \<open>The commands of the Redis client (an external library): each raises when the server is down.\<close>

definition redis_get :: "string \<Rightarrow> world \<Rightarrow> (error + redis_value option) \<times> world" where
  "redis_get key w =
     (if redis_up w then (Inr (map_option fst (redis_db w key)), emit (Redis_get key) w)
      else (Inl Redis_failure, emit (Redis_get key) w))"

definition redis_setex :: "string \<Rightarrow> int \<Rightarrow> redis_value \<Rightarrow> world \<Rightarrow> (error + unit) \<times> world" where
  "redis_setex key ttl_seconds v w =
     (if redis_up w
      then (Inr (), emit (Redis_setex key ttl_seconds v) (w\<lparr>redis_db := (redis_db w)(key \<mapsto> (v, ttl_seconds))\<rparr>))
      else (Inl Redis_failure, emit (Redis_setex key ttl_seconds v) w))"

definition redis_delete :: "string \<Rightarrow> world \<Rightarrow> (error + unit) \<times> world" where
  "redis_delete key w =
     (if redis_up w
      then (Inr (), emit (Redis_delete key) (w\<lparr>redis_db := (redis_db w)(key := None)\<rparr>))
      else (Inl Redis_failure, emit (Redis_delete key) w))"

definition redis_flushdb :: "world \<Rightarrow> (error + unit) \<times> world" where
  "redis_flushdb w =
     (if redis_up w
      then (Inr (), emit Redis_flushdb (w\<lparr>redis_db := Map.empty\<rparr>))
      else (Inl Redis_failure, emit Redis_flushdb w))"

definition redis_exists :: "string \<Rightarrow> world \<Rightarrow> (error + bool) \<times> world" where
  "redis_exists key w =
     (if redis_up w then (Inr (redis_db w key \<noteq> None), emit (Redis_exists key) w)
      else (Inl Redis_failure, emit (Redis_exists key) w))"

section \<open>RedisCache (commons/redis\_cache.py)\<close>

text \<open>
  Each method returns at once when \<^verbatim>\<open>self._client is None\<close> and wraps its Redis command in
  \<^verbatim>\<open>try ... except Exception\<close>, logging the error. The methods still return a sum, so that
  "does not raise" is a statement about them and not a matter of typing.
\<close>

definition RedisCache_get :: "string \<Rightarrow> world \<Rightarrow> (error + real option) \<times> world" where
  "RedisCache_get key w =
     (if \<not> redis_client w then (Inr None, w)
      else case redis_get key w of
             (Inl e, w') \<Rightarrow> (Inr None, w')
           | (Inr None, w') \<Rightarrow> (Inr None, w')
           | (Inr (Some b), w') \<Rightarrow>
               (case json_loads b of
                  Inl e \<Rightarrow> (Inr None, w')
                | Inr v \<Rightarrow> (Inr (Some v), w')))"

definition RedisCache_set :: "string \<Rightarrow> real \<Rightarrow> int \<Rightarrow> world \<Rightarrow> (error + unit) \<times> world" where
  "RedisCache_set key v ttl_seconds w =
     (if \<not> redis_client w then (Inr (), w)
      else case redis_setex key ttl_seconds (json_dumps v) w of
             (Inl e, w') \<Rightarrow> (Inr (), w')
           | (Inr u, w') \<Rightarrow> (Inr (), w'))"

definition RedisCache_delete :: "string \<Rightarrow> world \<Rightarrow> (error + unit) \<times> world" where
  "RedisCache_delete key w =
     (if \<not> redis_client w then (Inr (), w)
      else case redis_delete key w of
             (Inl e, w') \<Rightarrow> (Inr (), w')
           | (Inr u, w') \<Rightarrow> (Inr (), w'))"

definition RedisCache_clear :: "world \<Rightarrow> (error + unit) \<times> world" where
  "RedisCache_clear w =
     (if \<not> redis_client w then (Inr (), w)
      else case redis_flushdb w of
             (Inl e, w') \<Rightarrow> (Inr (), w')
           | (Inr u, w') \<Rightarrow> (Inr (), w'))"

definition RedisCache_exists :: "string \<Rightarrow> world \<Rightarrow> (error + bool) \<times> world" where
  "RedisCache_exists key w =
     (if \<not> redis_client w then (Inr False, w)
      else case redis_exists key w of
             (Inl e, w') \<Rightarrow> (Inr False, w')
           | (Inr b, w') \<Rightarrow> (Inr b, w'))"

section \<open>ExchangeRateClient (commons/exchange\_rate\_client.py)\<close>

text \<open>
  The service's configuration: the cache TTL of \<^verbatim>\<open>CurrencyConversionService\<close> and the
  API key of its \<^verbatim>\<open>ExchangeRateClient\<close> (an empty key is falsy).
\<close>

record service =
  ttl :: int
  api_key :: string

definition build_params :: "service \<Rightarrow> currency \<Rightarrow> currency list option \<Rightarrow> api_request" where
  "build_params s base_currency target_currencies =
     \<lparr> access_key = (if api_key s \<noteq> [] then Some (api_key s) else None),
       base_param = (if api_key s \<noteq> [] then None else Some (currency_value base_currency)),
       symbols = (case target_currencies of
                    None \<Rightarrow> None
                  | Some ts \<Rightarrow> if ts = [] then None else Some (set ts)) \<rparr>"

text \<open>
  What \<^verbatim>\<open>get_exchange_rates\<close> makes of the reply: \<^verbatim>\<open>raise_for_status\<close>,
  \<^verbatim>\<open>response.json()\<close>, the check of an error payload, and the snapshot. The rates are
  taken as the provider sent them.
\<close>

definition read_reply :: "service \<Rightarrow> currency \<Rightarrow> http_reply \<Rightarrow> error + exchange_rate_data" where
  "read_reply s base_currency reply =
     (case reply of
        Transport_failure \<Rightarrow> Inl Request_error
      | Bad_status n \<Rightarrow> Inl (Http_status_error n)
      | Body_not_json \<Rightarrow> Inl Json_decode_error
      | Json data \<Rightarrow>
          if \<not> (case success data of None \<Rightarrow> True | Some b \<Rightarrow> b) \<and> error_info data \<noteq> None
          then Inl (Api_error (case error_info data of
                                 Some (Some info) \<Rightarrow> info
                               | _ \<Rightarrow> ''Unknown error''))
          else Inr \<lparr> rates = (case body_rates data of None \<Rightarrow> [] | Some rs \<Rightarrow> rs),
                     base = (if api_key s \<noteq> [] then EUR else base_currency) \<rparr>)"

definition get_exchange_rates ::
  "service \<Rightarrow> currency \<Rightarrow> currency list option \<Rightarrow> world \<Rightarrow> (error + exchange_rate_data) \<times> world" where
  "get_exchange_rates s base_currency target_currencies w =
     (let params = build_params s base_currency target_currencies
      in (read_reply s base_currency (api w (events w) params), emit (Http_get params) w))"

text \<open>Python truthiness of \<^verbatim>\<open>dict.get(code)\<close>: falsy when the key is missing or the value is zero.\<close>

definition truthy :: "real option \<Rightarrow> bool" where
  "truthy x = (case x of None \<Rightarrow> False | Some v \<Rightarrow> v \<noteq> 0)"

definition rate_or_raise ::
  "currency \<Rightarrow> currency \<Rightarrow> exchange_rate_data \<Rightarrow> real option \<Rightarrow> error + real" where
  "rate_or_raise from_c to_c exchange_data r =
     (case r of
        None \<Rightarrow> Inl (Rate_not_found from_c to_c (map fst (rates exchange_data)))
      | Some v \<Rightarrow> Inr v)"

definition get_rate :: "service \<Rightarrow> currency \<Rightarrow> currency \<Rightarrow> world \<Rightarrow> (error + real) \<times> world" where
  "get_rate s from_c to_c w =
     (if from_c = to_c then (Inr 1, w)
      else if from_c = EUR then
        (case get_exchange_rates s EUR (Some [to_c]) w of
           (Inl e, w') \<Rightarrow> (Inl e, w')
         | (Inr exchange_data, w') \<Rightarrow>
             (rate_or_raise from_c to_c exchange_data
                (map_of (rates exchange_data) (currency_value to_c)), w'))
      else if to_c = EUR then
        (case get_exchange_rates s EUR (Some [from_c]) w of
           (Inl e, w') \<Rightarrow> (Inl e, w')
         | (Inr exchange_data, w') \<Rightarrow>
             (let eur_to_from = map_of (rates exchange_data) (currency_value from_c)
              in (rate_or_raise from_c to_c exchange_data
                    (if truthy eur_to_from then Some (1 / the eur_to_from) else None), w')))
      else
        (case get_exchange_rates s EUR (Some [from_c, to_c]) w of
           (Inl e, w') \<Rightarrow> (Inl e, w')
         | (Inr exchange_data, w') \<Rightarrow>
             (let eur_to_from = map_of (rates exchange_data) (currency_value from_c);
                  eur_to_to = map_of (rates exchange_data) (currency_value to_c)
              in (rate_or_raise from_c to_c exchange_data
                    (if truthy eur_to_from \<and> truthy eur_to_to
                     then Some (the eur_to_to / the eur_to_from) else None), w'))))"

text \<open>
  The loop of \<^verbatim>\<open>get_multiple_rates\<close>: \<^verbatim>\<open>result[to_curr.value] = ...\<close> is
  \<^const>\<open>AList.update\<close> (a new key goes last, an old key keeps its place).
\<close>

fun multiple_rates_loop ::
  "currency \<Rightarrow> exchange_rate_data \<Rightarrow> currency list \<Rightarrow> (string \<times> real) list \<Rightarrow> (string \<times> real) list" where
  "multiple_rates_loop from_c exchange_data [] result = result"
| "multiple_rates_loop from_c exchange_data (to_curr # rest) result =
     multiple_rates_loop from_c exchange_data rest
       (if from_c = to_curr then AList.update (currency_value to_curr) 1 result
        else if from_c = EUR then
          (let r = map_of (rates exchange_data) (currency_value to_curr)
           in if truthy r then AList.update (currency_value to_curr) (the r) result else result)
        else if to_curr = EUR then
          (let eur_to_from = map_of (rates exchange_data) (currency_value from_c)
           in if truthy eur_to_from
              then AList.update (currency_value to_curr) (1 / the eur_to_from) result else result)
        else
          (let eur_to_from = map_of (rates exchange_data) (currency_value from_c);
               eur_to_to = map_of (rates exchange_data) (currency_value to_curr)
           in if truthy eur_to_from \<and> truthy eur_to_to
              then AList.update (currency_value to_curr) (the eur_to_to / the eur_to_from) result
              else result))"

definition get_multiple_rates ::
  "service \<Rightarrow> currency \<Rightarrow> currency list \<Rightarrow> world \<Rightarrow> (error + (string \<times> real) list) \<times> world" where
  "get_multiple_rates s from_c to_currencies w =
     (let all_currencies = from_c # to_currencies;
          currencies_to_fetch = filter (\<lambda>c. c \<noteq> EUR) all_currencies
      in case get_exchange_rates s EUR
                (if currencies_to_fetch \<noteq> [] then Some currencies_to_fetch else None) w of
           (Inl e, w') \<Rightarrow> (Inl e, w')
         | (Inr exchange_data, w') \<Rightarrow>
             (let result = multiple_rates_loop from_c exchange_data to_currencies []
              in if result = [] then (Inl (No_rates_found from_c to_currencies), w')
                 else (Inr result, w')))"

section \<open>CurrencyConversionService (commons/service.py)\<close>

definition CACHE_PREFIX :: string where
  "CACHE_PREFIX = ''exchange_rate''"

definition cache_key :: "currency \<Rightarrow> currency \<Rightarrow> string" where
  "cache_key from_c to_c = CACHE_PREFIX @ '':'' @ currency_value from_c @ '':'' @ currency_value to_c"

definition get_cached_rate :: "string \<Rightarrow> world \<Rightarrow> real option \<times> world" where
  "get_cached_rate key w =
     (case RedisCache_get key w of
        (Inl e, w') \<Rightarrow> (None, w')
      | (Inr r, w') \<Rightarrow> (r, w'))"

definition cache_rate :: "service \<Rightarrow> string \<Rightarrow> real \<Rightarrow> world \<Rightarrow> world" where
  "cache_rate s key r w =
     (case RedisCache_set key r (ttl s) w of
        (Inl e, w') \<Rightarrow> w'
      | (Inr u, w') \<Rightarrow> w')"

definition fallback_rates :: "((string \<times> string) \<times> real) list" where
  "fallback_rates =
     [((''USD'', ''EUR''), 0.92), ((''USD'', ''GBP''), 0.79), ((''USD'', ''JPY''), 149.50),
      ((''USD'', ''INR''), 83.12), ((''USD'', ''AED''), 3.67), ((''USD'', ''UZS''), 12755.0),
      ((''EUR'', ''USD''), 1.09), ((''EUR'', ''GBP''), 0.86), ((''EUR'', ''JPY''), 162.50),
      ((''GBP'', ''USD''), 1.27), ((''GBP'', ''EUR''), 1.16),
      ((''JPY'', ''USD''), 0.0067), ((''JPY'', ''EUR''), 0.0062),
      ((''INR'', ''USD''), 0.012), ((''INR'', ''EUR''), 0.011),
      ((''AED'', ''USD''), 0.27), ((''AED'', ''EUR''), 0.25),
      ((''UZS'', ''USD''), 0.000078), ((''UZS'', ''EUR''), 0.000072)]"

definition get_fallback_rate :: "currency \<Rightarrow> currency \<Rightarrow> real option" where
  "get_fallback_rate from_c to_c =
     (if from_c = to_c then Some 1
      else map_of fallback_rates (currency_value from_c, currency_value to_c))"

text \<open>
  \<^verbatim>\<open>_get_rate\<close>: the cache, then the provider (whose rate is cached), then the fallback
  table. \<^verbatim>\<open>_cache_rate\<close> stands inside the \<^verbatim>\<open>try\<close> too, but it never raises.
\<close>

definition service_get_rate ::
  "service \<Rightarrow> string \<Rightarrow> currency \<Rightarrow> currency \<Rightarrow> world \<Rightarrow> (error + real) \<times> world" where
  "service_get_rate s key from_c to_c w =
     (case get_cached_rate key w of
        (Some cached_rate, w1) \<Rightarrow> (Inr cached_rate, w1)
      | (None, w1) \<Rightarrow>
          (case get_rate s from_c to_c w1 of
             (Inr r, w2) \<Rightarrow> (Inr r, cache_rate s key r w2)
           | (Inl e, w2) \<Rightarrow>
               (case get_fallback_rate from_c to_c of
                  Some fallback \<Rightarrow> (Inr fallback, w2)
                | None \<Rightarrow> (Inl (Could_not_get_rate from_c to_c), w2))))"

text \<open>\<^verbatim>\<open>_was_cached\<close> reads the cache again and compares: \<^verbatim>\<open>cached == rate\<close>.\<close>

definition was_cached :: "string \<Rightarrow> real \<Rightarrow> world \<Rightarrow> bool \<times> world" where
  "was_cached key r w =
     (case get_cached_rate key w of (c, w') \<Rightarrow> (c = Some r, w'))"

text \<open>
  Python's \<^verbatim>\<open>round(x, 2)\<close>: to the nearest hundredth, a tie going to the even neighbour.
\<close>

definition round_half_even :: "real \<Rightarrow> int" where
  "round_half_even x =
     (let f = \<lfloor>x\<rfloor>; d = x - of_int f
      in if d < 1 / 2 then f else if 1 / 2 < d then f + 1 else if even f then f else f + 1)"

definition round2 :: "real \<Rightarrow> real" where
  "round2 x = of_int (round_half_even (x * 100)) / 100"

definition convert ::
  "service \<Rightarrow> conversion_request \<Rightarrow> world \<Rightarrow> (error + conversion_response) \<times> world" where
  "convert s request w =
     (if amount request \<le> 0 then (Inl Amount_not_positive, w)
      else if from_currency request = to_currency request then
        (Inr \<lparr> resp_amount = amount request,
               resp_from_currency = from_currency request,
               resp_to_currency = to_currency request,
               converted_amount = amount request,
               rate = 1,
               cached = False \<rparr>, w)
      else
        (let key = cache_key (from_currency request) (to_currency request)
         in case service_get_rate s key (from_currency request) (to_currency request) w of
              (Inl e, w1) \<Rightarrow> (Inl e, w1)
            | (Inr r, w1) \<Rightarrow>
                (case was_cached key r w1 of
                   (c, w2) \<Rightarrow>
                     (Inr \<lparr> resp_amount = amount request,
                            resp_from_currency = from_currency request,
                            resp_to_currency = to_currency request,
                            converted_amount = round2 (amount request * r),
                            rate = r,
                            cached = c \<rparr>, w2))))"




text \<open>\<^verbatim>\<open>clear_cache\<close> re-raises whatever \<^verbatim>\<open>RedisCache.clear\<close> raises.\<close>

definition clear_cache :: "world \<Rightarrow> (error + unit) \<times> world" where
  "clear_cache w =
     (case RedisCache_clear w of
        (Inl e, w') \<Rightarrow> (Inl e, w')
      | (Inr u, w') \<Rightarrow> (Inr (), w'))"

definition get_rate_direct ::
  "service \<Rightarrow> currency \<Rightarrow> currency \<Rightarrow> bool \<Rightarrow> world \<Rightarrow> (error + real) \<times> world" where
  "get_rate_direct s from_c to_c use_cache w =
     (if \<not> use_cache then get_rate s from_c to_c w
      else service_get_rate s (cache_key from_c to_c) from_c to_c w)"

section \<open>Vocabulary of the statements\<close>

text \<open>The events a run added to the world.\<close>

definition new_events :: "world \<Rightarrow> world \<Rightarrow> event list" where
  "new_events w w' = drop (length (events w)) (events w')"

fun is_http_get :: "event \<Rightarrow> bool" where
  "is_http_get (Http_get p) = True"
| "is_http_get e = False"

fun is_redis_event :: "event \<Rightarrow> bool" where
  "is_redis_event (Http_get p) = False"
| "is_redis_event e = True"

fun is_setex :: "event \<Rightarrow> bool" where
  "is_setex (Redis_setex k t v) = True"
| "is_setex e = False"

text \<open>The list \<^verbatim>\<open>get_rate\<close> asks the provider for: the currencies of the pair but the base.\<close>

definition pair_targets :: "currency \<Rightarrow> currency \<Rightarrow> currency list" where
  "pair_targets from_c to_c =
     (if from_c = EUR then [to_c] else if to_c = EUR then [from_c] else [from_c, to_c])"

definition all_positive :: "(string \<times> real) list \<Rightarrow> bool" where
  "all_positive rs = list_all (\<lambda>kv. 0 < snd kv) rs"

text \<open>
  The pair rate a EUR-based snapshot gives, in the words of the specification: the base
  stands at 1, a currency is priced when its entry is there and not zero, and the rate is
  \<^verbatim>\<open>rate(to) / rate(from)\<close>.
\<close>

definition priced :: "exchange_rate_data \<Rightarrow> currency \<Rightarrow> real option" where
  "priced d c =
     (if c = EUR then Some 1
      else case map_of (rates d) (currency_value c) of
             None \<Rightarrow> None
           | Some v \<Rightarrow> if v = 0 then None else Some v)"

definition snapshot_rate :: "exchange_rate_data \<Rightarrow> currency \<Rightarrow> currency \<Rightarrow> real option" where
  "snapshot_rate d from_c to_c =
     (if from_c = to_c then Some 1
      else case priced d from_c of
             None \<Rightarrow> None
           | Some a \<Rightarrow> (case priced d to_c of None \<Rightarrow> None | Some b \<Rightarrow> Some (b / a)))"

text \<open>
  The rate \<^verbatim>\<open>get_rate\<close> is to read off a EUR-based snapshot for two different
  currencies: from the base, the entry of the target as it stands; to the base, the
  reciprocal of the source's entry; otherwise the target's entry over the source's. An
  entry under a division counts only when it is not zero.
\<close>

definition provider_rate :: "exchange_rate_data \<Rightarrow> currency \<Rightarrow> currency \<Rightarrow> real option" where
  "provider_rate d from_c to_c =
     (if from_c = EUR then map_of (rates d) (currency_value to_c)
      else case map_of (rates d) (currency_value from_c) of
             None \<Rightarrow> None
           | Some a \<Rightarrow>
               if a = 0 then None
               else if to_c = EUR then Some (1 / a)
               else (case map_of (rates d) (currency_value to_c) of
                       None \<Rightarrow> None
                     | Some b \<Rightarrow> if b = 0 then None else Some (b / a)))"

section \<open>Sample configurations\<close>

definition svc :: service where
  "svc = \<lparr> ttl = 1800, api_key = ''key'' \<rparr>"

definition snapshot_body :: api_body where
  "snapshot_body =
     \<lparr> success = Some True, error_info = None,
       body_rates = Some [(''USD'', 1.0869), (''UZS'', 13870.5)] \<rparr>"

text \<open>A connected, empty cache and a provider that answers.\<close>

definition live_world :: world where
  "live_world =
     \<lparr> redis_client = True, redis_up = True, redis_db = Map.empty,
       api = (\<lambda>h p. Json snapshot_body), events = [] \<rparr>"

text \<open>A connected, empty cache and a provider that cannot be reached.\<close>

definition provider_down_world :: world where
  "provider_down_world =
     \<lparr> redis_client = True, redis_up = True, redis_db = Map.empty,
       api = (\<lambda>h p. Transport_failure), events = [] \<rparr>"

text \<open>A client whose server is gone; the database still holds an entry.\<close>

definition redis_down_world :: world where
  "redis_down_world =
     \<lparr> redis_client = True, redis_up = False,
       redis_db = [''exchange_rate:USD:EUR'' \<mapsto> (Json_float 0.9, 1800)],
       api = (\<lambda>h p. Json snapshot_body), events = [] \<rparr>"

text \<open>A reachable server holding bytes that are not JSON.\<close>

definition garbage_world :: world where
  "garbage_world =
     \<lparr> redis_client = True, redis_up = True,
       redis_db = [''exchange_rate:USD:EUR'' \<mapsto> (Not_json ''{'', 1800)],
       api = (\<lambda>h p. Json snapshot_body), events = [] \<rparr>"

text \<open>A provider that answers with a zero and a negative rate.\<close>

definition bad_rates_world :: world where
  "bad_rates_world =
     \<lparr> redis_client = True, redis_up = True, redis_db = Map.empty,
       api = (\<lambda>h p. Json \<lparr> success = Some True, error_info = None,
                            body_rates = Some [(''USD'', 0), (''GBP'', - 1)] \<rparr>),
       events = [] \<rparr>"

text \<open>A provider that answers with a zero rate for GBP.\<close>

definition zero_rate_world :: world where
  "zero_rate_world =
     \<lparr> redis_client = True, redis_up = True, redis_db = Map.empty,
       api = (\<lambda>h p. Json \<lparr> success = Some True, error_info = None,
                            body_rates = Some [(''USD'', 1.0869), (''GBP'', 0)] \<rparr>),
       events = [] \<rparr>"

text \<open>A cache that holds the rate of USD to EUR, and a provider that cannot be reached.\<close>

definition warm_world :: world where
  "warm_world =
     \<lparr> redis_client = True, redis_up = True,
       redis_db = [''exchange_rate:USD:EUR'' \<mapsto> (Json_float 0.9, 1800)],
       api = (\<lambda>h p. Transport_failure), events = [] \<rparr>"



lemmas cache_defs =
  RedisCache_get_def RedisCache_set_def RedisCache_delete_def RedisCache_clear_def
  RedisCache_exists_def redis_get_def redis_setex_def redis_delete_def redis_flushdb_def
  redis_exists_def emit_def json_dumps_def

lemmas client_defs =
  get_rate_def get_exchange_rates_def read_reply_def build_params_def rate_or_raise_def
  truthy_def emit_def

lemmas service_defs =
  convert_def service_get_rate_def get_cached_rate_def cache_rate_def was_cached_def
  cache_key_def CACHE_PREFIX_def get_fallback_rate_def fallback_rates_def

lemmas sample_defs =
  svc_def snapshot_body_def live_world_def provider_down_world_def redis_down_world_def
  garbage_world_def bad_rates_world_def zero_rate_world_def warm_world_def

section \<open>How the operations change the world\<close>

lemma get_cached_rate_world:
  "snd (get_cached_rate key w) = (if redis_client w then emit (Redis_get key) w else w)"
  by (simp add: get_cached_rate_def RedisCache_get_def redis_get_def split: option.splits sum.splits)

lemma get_cached_rate_value:
  "fst (get_cached_rate key w) =
     (if redis_client w \<and> redis_up w
      then (case redis_db w key of
              None \<Rightarrow> None
            | Some (Json_float v, n) \<Rightarrow> Some v
            | Some (Not_json b, n) \<Rightarrow> None)
      else None)"
  by (simp add: get_cached_rate_def RedisCache_get_def redis_get_def
      split: option.splits sum.splits redis_value.splits)

lemma get_rate_world:
  "from_c \<noteq> to_c \<Longrightarrow>
     snd (get_rate s from_c to_c w) =
       emit (Http_get (build_params s EUR (Some (pair_targets from_c to_c)))) w"
  by (simp add: get_rate_def get_exchange_rates_def pair_targets_def Let_def split: sum.splits)

lemma emit_fields [simp]:
  "redis_client (emit e w) = redis_client w"
  "redis_up (emit e w) = redis_up w"
  "redis_db (emit e w) = redis_db w"
  "api (emit e w) = api w"
  "events (emit e w) = events w @ [e]"
  by (simp_all add: emit_def)

lemma get_exchange_rates_value:
  "fst (get_exchange_rates s b ts w) = read_reply s b (api w (events w) (build_params s b ts))"
  by (simp add: get_exchange_rates_def Let_def)

lemma read_reply_Inr:
  assumes "read_reply s b reply = Inr d"
  obtains data where "reply = Json data"
    and "rates d = (case body_rates data of None \<Rightarrow> [] | Some rs \<Rightarrow> rs)"
    and "base d = (if api_key s \<noteq> [] then EUR else b)"
proof (cases reply)
  case (Json data)
  with assms have "d = \<lparr> rates = (case body_rates data of None \<Rightarrow> [] | Some rs \<Rightarrow> rs),
                          base = (if api_key s \<noteq> [] then EUR else b) \<rparr>"
    by (simp add: read_reply_def split: if_splits)
  with Json that show ?thesis by simp
qed (use assms in \<open>simp_all add: read_reply_def\<close>)

section \<open>The cache in degraded mode\<close>

text \<open>
  Claim C6. Whenever the cache has no client or its server does not answer, no operation
  of \<^verbatim>\<open>RedisCache\<close> raises: \<^verbatim>\<open>get\<close> returns \<^verbatim>\<open>None\<close>, \<^verbatim>\<open>set\<close>, \<^verbatim>\<open>delete\<close> and
  \<^verbatim>\<open>clear\<close> return and leave the database as it was, \<^verbatim>\<open>exists\<close> returns \<^verbatim>\<open>False\<close>. And
  when the stored bytes are not JSON, \<^verbatim>\<open>get\<close> returns \<^verbatim>\<open>None\<close>, a cache miss.
\<close>

theorem degraded_cache_is_silent:
  "(\<not> redis_client w \<or> \<not> redis_up w \<longrightarrow>
      fst (RedisCache_get key w) = Inr None
    \<and> fst (RedisCache_set key v t w) = Inr () \<and> redis_db (snd (RedisCache_set key v t w)) = redis_db w
    \<and> fst (RedisCache_delete key w) = Inr () \<and> redis_db (snd (RedisCache_delete key w)) = redis_db w
    \<and> fst (RedisCache_clear w) = Inr () \<and> redis_db (snd (RedisCache_clear w)) = redis_db w
    \<and> fst (RedisCache_exists key w) = Inr False)
  \<and> (redis_db w key = Some (Not_json b, n) \<longrightarrow> fst (RedisCache_get key w) = Inr None)"
  by (simp add: cache_defs)

theorem degraded_cache_is_silent_witness:
  "\<not> redis_up redis_down_world
   \<and> fst (RedisCache_get ''exchange_rate:USD:EUR'' redis_down_world) = Inr None
   \<and> fst (RedisCache_set ''exchange_rate:USD:EUR'' 2 60 redis_down_world) = Inr ()
   \<and> redis_db (snd (RedisCache_set ''exchange_rate:USD:EUR'' 2 60 redis_down_world)) = redis_db redis_down_world
   \<and> fst (RedisCache_delete ''exchange_rate:USD:EUR'' redis_down_world) = Inr ()
   \<and> redis_db (snd (RedisCache_delete ''exchange_rate:USD:EUR'' redis_down_world)) = redis_db redis_down_world
   \<and> fst (RedisCache_clear redis_down_world) = Inr ()
   \<and> redis_db (snd (RedisCache_clear redis_down_world)) = redis_db redis_down_world
   \<and> fst (RedisCache_exists ''exchange_rate:USD:EUR'' redis_down_world) = Inr False
   \<and> redis_db garbage_world ''exchange_rate:USD:EUR'' = Some (Not_json ''{'', 1800)
   \<and> fst (RedisCache_get ''exchange_rate:USD:EUR'' garbage_world) = Inr None"
proof -
  have down: "\<not> redis_up redis_down_world"
    by (simp add: redis_down_world_def)
  have garbage: "redis_db garbage_world ''exchange_rate:USD:EUR'' = Some (Not_json ''{'', 1800)"
    by (simp add: garbage_world_def)
  from degraded_cache_is_silent [of redis_down_world "''exchange_rate:USD:EUR''" 2 60 "''{''" 1800]
    degraded_cache_is_silent [of garbage_world "''exchange_rate:USD:EUR''" 2 60 "''{''" 1800]
    down garbage
  show ?thesis by blast
qed

section \<open>Clearing the cache\<close>

text \<open>
  Claim C3 says that \<^verbatim>\<open>clear_cache\<close> hands a failure of the flush to its caller. It does
  not: with the server gone, \<^verbatim>\<open>flushdb\<close> raises, \<^verbatim>\<open>RedisCache.clear\<close> logs the error and
  returns, and \<^verbatim>\<open>clear_cache\<close> returns normally.
\<close>

theorem clear_cache_swallows_flush_failure:
  "fst (redis_flushdb redis_down_world) = Inl Redis_failure
   \<and> fst (clear_cache redis_down_world) = Inr ()"
  by (simp add: clear_cache_def cache_defs redis_down_world_def)

text \<open>
  Claim C3, amended. \<^verbatim>\<open>clear_cache\<close> does what \<^verbatim>\<open>RedisCache.clear\<close> does and returns
  normally in every state of the store: with a client and a server that answers, the
  database is emptied; otherwise it is left as it was.
\<close>

theorem clear_cache_never_fails:
  "clear_cache w = RedisCache_clear w
   \<and> fst (clear_cache w) = Inr ()
   \<and> (redis_client w \<and> redis_up w \<longrightarrow> redis_db (snd (clear_cache w)) = Map.empty)
   \<and> (\<not> (redis_client w \<and> redis_up w) \<longrightarrow> redis_db (snd (clear_cache w)) = redis_db w)"
  by (simp add: clear_cache_def cache_defs)

theorem clear_cache_never_fails_witness:
  "redis_client live_world \<and> redis_up live_world
   \<and> clear_cache live_world = RedisCache_clear live_world
   \<and> fst (clear_cache live_world) = Inr ()
   \<and> redis_db (snd (clear_cache live_world)) = Map.empty
   \<and> \<not> (redis_client redis_down_world \<and> redis_up redis_down_world)
   \<and> fst (clear_cache redis_down_world) = Inr ()
   \<and> redis_db (snd (clear_cache redis_down_world)) = redis_db redis_down_world"
proof -
  have up: "redis_client live_world \<and> redis_up live_world"
    by (simp add: live_world_def)
  have down: "\<not> (redis_client redis_down_world \<and> redis_up redis_down_world)"
    by (simp add: redis_down_world_def)
  from clear_cache_never_fails [of live_world] clear_cache_never_fails [of redis_down_world] up down
  show ?thesis by blast
qed

section \<open>The snapshot of a fetch\<close>

text \<open>
  Claim C8 says that every rate of a snapshot is strictly positive. Nothing checks it: a
  provider that answers with a zero and a negative rate gets them into the snapshot.
\<close>

theorem snapshot_not_validated:
  "fst (get_exchange_rates svc EUR (Some [USD, GBP]) bad_rates_world)
     = Inr \<lparr> rates = [(''USD'', 0), (''GBP'', - 1)], base = EUR \<rparr>
   \<and> \<not> all_positive [(''USD'', 0), (''GBP'', - 1)]"
  by (simp add: get_exchange_rates_def read_reply_def build_params_def all_positive_def sample_defs)

text \<open>
  Claim C8, amended. The snapshot of a successful fetch holds the rates of the provider's
  reply as they came (none when the reply has no rates), so its rates are all strictly
  positive exactly when the reply's are.
\<close>

theorem snapshot_carries_provider_rates:
  assumes "fst (get_exchange_rates s b ts w) = Inr d"
  shows "\<exists>data. api w (events w) (build_params s b ts) = Json data
           \<and> rates d = (case body_rates data of None \<Rightarrow> [] | Some rs \<Rightarrow> rs)
           \<and> (all_positive (rates d) \<longleftrightarrow>
                (case body_rates data of None \<Rightarrow> True | Some rs \<Rightarrow> all_positive rs))"
proof -
  from assms have "read_reply s b (api w (events w) (build_params s b ts)) = Inr d"
    by (simp add: get_exchange_rates_value)
  then obtain data where reply: "api w (events w) (build_params s b ts) = Json data"
    and rs: "rates d = (case body_rates data of None \<Rightarrow> [] | Some rs \<Rightarrow> rs)"
    by (rule read_reply_Inr)
  from rs have "all_positive (rates d) \<longleftrightarrow>
      (case body_rates data of None \<Rightarrow> True | Some rs \<Rightarrow> all_positive rs)"
    by (simp add: all_positive_def split: option.splits)
  with reply rs show ?thesis by blast
qed

theorem snapshot_carries_provider_rates_witness:
  "fst (get_exchange_rates svc EUR (Some [USD, UZS]) live_world)
     = Inr \<lparr> rates = [(''USD'', 1.0869), (''UZS'', 13870.5)], base = EUR \<rparr>
   \<and> (\<exists>data. api live_world (events live_world) (build_params svc EUR (Some [USD, UZS])) = Json data
        \<and> rates \<lparr> rates = [(''USD'', 1.0869), (''UZS'', 13870.5)], base = EUR \<rparr>
            = (case body_rates data of None \<Rightarrow> [] | Some rs \<Rightarrow> rs)
        \<and> (all_positive (rates \<lparr> rates = [(''USD'', 1.0869), (''UZS'', 13870.5)], base = EUR \<rparr>) \<longleftrightarrow>
             (case body_rates data of None \<Rightarrow> True | Some rs \<Rightarrow> all_positive rs)))"
proof -
  have fetched: "fst (get_exchange_rates svc EUR (Some [USD, UZS]) live_world)
     = Inr \<lparr> rates = [(''USD'', 1.0869), (''UZS'', 13870.5)], base = EUR \<rparr>"
    by (simp add: get_exchange_rates_def read_reply_def build_params_def sample_defs)
  from snapshot_carries_provider_rates [OF fetched] fetched show ?thesis by blast
qed

section \<open>More on how the operations change the world\<close>

lemma cache_rate_world:
  "cache_rate s key r w =
     (if redis_client w
      then (if redis_up w
            then emit (Redis_setex key (ttl s) (Json_float r))
                   (w\<lparr>redis_db := (redis_db w)(key \<mapsto> (Json_float r, ttl s))\<rparr>)
            else emit (Redis_setex key (ttl s) (Json_float r)) w)
      else w)"
  by (simp add: cache_rate_def RedisCache_set_def redis_setex_def json_dumps_def)

lemma get_cached_rate_same_store:
  assumes "redis_client w' = redis_client w" "redis_up w' = redis_up w" "redis_db w' = redis_db w"
  shows "fst (get_cached_rate key w') = fst (get_cached_rate key w)"
  using assms by (simp add: get_cached_rate_value)

lemma convert_miss_reaches_provider:
  assumes "0 < amount req" and "from_currency req \<noteq> to_currency req"
    and "fst (get_cached_rate (cache_key (from_currency req) (to_currency req)) w) = None"
  shows "list_ex is_http_get (new_events w (snd (convert s req w)))"
  using assms
  by (simp add: convert_def service_get_rate_def was_cached_def split_beta Let_def
      get_cached_rate_world get_rate_world cache_rate_world new_events_def
      split: sum.splits option.splits)

lemma get_rate_cross:
  assumes "from_c \<noteq> to_c" "from_c \<noteq> EUR" "to_c \<noteq> EUR"
    and "read_reply s EUR (api w (events w) (build_params s EUR (Some [from_c, to_c]))) = Inr d"
    and "map_of (rates d) (currency_value from_c) = Some a" "a \<noteq> 0"
    and "map_of (rates d) (currency_value to_c) = Some b" "b \<noteq> 0"
  shows "fst (get_rate s from_c to_c w) = Inr (b / a)"
  using assms
  by (simp add: get_rate_def get_exchange_rates_def Let_def rate_or_raise_def truthy_def)

lemma get_rate_value:
  assumes "from_c \<noteq> to_c"
  shows "fst (get_rate s from_c to_c w) =
     (case read_reply s EUR (api w (events w) (build_params s EUR (Some (pair_targets from_c to_c)))) of
        Inl e \<Rightarrow> Inl e
      | Inr d \<Rightarrow>
          (case provider_rate d from_c to_c of
             None \<Rightarrow> Inl (Rate_not_found from_c to_c (map fst (rates d)))
           | Some r \<Rightarrow> Inr r))"
  using assms
  by (simp add: get_rate_def get_exchange_rates_def pair_targets_def Let_def rate_or_raise_def
      truthy_def provider_rate_def split: sum.splits option.splits)

section \<open>The pair rate of the provider\<close>

text \<open>
  Claim C4 says that for two currencies other than the base \<^verbatim>\<open>get_rate\<close> returns the
  target's entry divided by the source's. It does not when an entry is zero: the test
  \<^verbatim>\<open>if eur_to_from and eur_to_to\<close> is falsy there. With the reply
  \<^verbatim>\<open>{USD: 1.0869, GBP: 0}\<close> both entries are in the snapshot, and the rate of USD to GBP
  is not 0 / 1.0869 but the error \<^verbatim>\<open>Rate_not_found\<close>, which lists GBP among the codes
  returned.
\<close>

theorem get_rate_zero_entry_not_divided:
  "fst (get_exchange_rates svc EUR (Some [USD, GBP]) zero_rate_world)
     = Inr \<lparr> rates = [(''USD'', 1.0869), (''GBP'', 0)], base = EUR \<rparr>
   \<and> fst (get_rate svc USD GBP zero_rate_world)
     = Inl (Rate_not_found USD GBP [''USD'', ''GBP''])
   \<and> fst (get_rate svc USD GBP zero_rate_world) \<noteq> Inr (0 / 1.0869)"
  by (simp add: client_defs Let_def sample_defs)

text \<open>
  Claim C4, amended. \<^verbatim>\<open>get_rate\<close> returns 1 for a currency against itself and leaves
  the world as it was (no request is sent). From the base EUR it returns the snapshot's
  entry of the target as it stands; to the base it returns the reciprocal of the source's
  entry when that is not zero; otherwise it returns the target's entry divided by the
  source's when neither is zero, both read from one snapshot. It fails with
  \<^verbatim>\<open>Rate_not_found\<close>, which carries the codes the snapshot holds, when the entry it
  needs from the base is missing, and when an entry it divides by or divides is missing or
  zero. A failure of the fetch itself is handed on.
\<close>

theorem get_rate_cases:
  "get_rate s c c w = (Inr 1, w)
   \<and> (t \<noteq> EUR \<and> get_exchange_rates s EUR (Some [t]) w = (Inr d1, w1)
        \<and> map_of (rates d1) (currency_value t) = Some r
      \<longrightarrow> get_rate s EUR t w = (Inr r, w1))
   \<and> (t \<noteq> EUR \<and> get_exchange_rates s EUR (Some [t]) w = (Inr d1, w1)
        \<and> map_of (rates d1) (currency_value t) = None
      \<longrightarrow> get_rate s EUR t w = (Inl (Rate_not_found EUR t (map fst (rates d1))), w1))
   \<and> (f \<noteq> EUR \<and> get_exchange_rates s EUR (Some [f]) w = (Inr d2, w2)
        \<and> map_of (rates d2) (currency_value f) = Some a \<and> a \<noteq> 0
      \<longrightarrow> get_rate s f EUR w = (Inr (1 / a), w2))
   \<and> (f \<noteq> EUR \<and> get_exchange_rates s EUR (Some [f]) w = (Inr d2, w2)
        \<and> (map_of (rates d2) (currency_value f) = None
             \<or> map_of (rates d2) (currency_value f) = Some 0)
      \<longrightarrow> get_rate s f EUR w = (Inl (Rate_not_found f EUR (map fst (rates d2))), w2))
   \<and> (f \<noteq> t \<and> f \<noteq> EUR \<and> t \<noteq> EUR \<and> get_exchange_rates s EUR (Some [f, t]) w = (Inr d3, w3)
        \<and> map_of (rates d3) (currency_value f) = Some a \<and> a \<noteq> 0
        \<and> map_of (rates d3) (currency_value t) = Some b \<and> b \<noteq> 0
      \<longrightarrow> get_rate s f t w = (Inr (b / a), w3))
   \<and> (f \<noteq> t \<and> f \<noteq> EUR \<and> t \<noteq> EUR \<and> get_exchange_rates s EUR (Some [f, t]) w = (Inr d3, w3)
        \<and> (map_of (rates d3) (currency_value f) = None
             \<or> map_of (rates d3) (currency_value f) = Some 0
             \<or> map_of (rates d3) (currency_value t) = None
             \<or> map_of (rates d3) (currency_value t) = Some 0)
      \<longrightarrow> get_rate s f t w = (Inl (Rate_not_found f t (map fst (rates d3))), w3))
   \<and> (f \<noteq> t \<and> get_exchange_rates s EUR (Some (pair_targets f t)) w = (Inl e, w4)
      \<longrightarrow> get_rate s f t w = (Inl e, w4))"
proof -
  have same: "get_rate s c c w = (Inr 1, w)"
    by (simp add: get_rate_def)
  have from_base: "get_rate s EUR t w = (Inr r, w1)"
    if "t \<noteq> EUR" "get_exchange_rates s EUR (Some [t]) w = (Inr d1, w1)"
      "map_of (rates d1) (currency_value t) = Some r"
    using that by (auto simp add: get_rate_def rate_or_raise_def)
  have from_base_missing: "get_rate s EUR t w = (Inl (Rate_not_found EUR t (map fst (rates d1))), w1)"
    if "t \<noteq> EUR" "get_exchange_rates s EUR (Some [t]) w = (Inr d1, w1)"
      "map_of (rates d1) (currency_value t) = None"
    using that by (auto simp add: get_rate_def rate_or_raise_def)
  have to_base: "get_rate s f EUR w = (Inr (1 / a), w2)"
    if "f \<noteq> EUR" "get_exchange_rates s EUR (Some [f]) w = (Inr d2, w2)"
      "map_of (rates d2) (currency_value f) = Some a" "a \<noteq> 0"
    using that by (simp add: get_rate_def rate_or_raise_def truthy_def)
  have to_base_missing: "get_rate s f EUR w = (Inl (Rate_not_found f EUR (map fst (rates d2))), w2)"
    if "f \<noteq> EUR" "get_exchange_rates s EUR (Some [f]) w = (Inr d2, w2)"
      "map_of (rates d2) (currency_value f) = None
         \<or> map_of (rates d2) (currency_value f) = Some 0"
    using that by (auto simp add: get_rate_def rate_or_raise_def truthy_def)
  have cross: "get_rate s f t w = (Inr (b / a), w3)"
    if "f \<noteq> t" "f \<noteq> EUR" "t \<noteq> EUR" "get_exchange_rates s EUR (Some [f, t]) w = (Inr d3, w3)"
      "map_of (rates d3) (currency_value f) = Some a" "a \<noteq> 0"
      "map_of (rates d3) (currency_value t) = Some b" "b \<noteq> 0"
    using that by (simp add: get_rate_def rate_or_raise_def truthy_def)
  have cross_missing: "get_rate s f t w = (Inl (Rate_not_found f t (map fst (rates d3))), w3)"
    if "f \<noteq> t" "f \<noteq> EUR" "t \<noteq> EUR" "get_exchange_rates s EUR (Some [f, t]) w = (Inr d3, w3)"
      "map_of (rates d3) (currency_value f) = None
         \<or> map_of (rates d3) (currency_value f) = Some 0
         \<or> map_of (rates d3) (currency_value t) = None
         \<or> map_of (rates d3) (currency_value t) = Some 0"
    using that by (auto simp add: get_rate_def rate_or_raise_def truthy_def)
  have fetch_failed: "get_rate s f t w = (Inl e, w4)"
    if "f \<noteq> t" "get_exchange_rates s EUR (Some (pair_targets f t)) w = (Inl e, w4)"
    using that by (auto simp add: get_rate_def pair_targets_def split: if_splits)
  from same from_base from_base_missing to_base to_base_missing cross cross_missing fetch_failed
  show ?thesis by blast
qed

theorem get_rate_cases_witness:
  "get_rate svc USD USD live_world = (Inr 1, live_world)
   \<and> fst (get_rate svc EUR UZS live_world) = Inr 13870.5
   \<and> fst (get_rate svc USD EUR live_world) = Inr (1 / 1.0869)
   \<and> fst (get_rate svc USD UZS live_world) = Inr (13870.5 / 1.0869)
   \<and> fst (get_rate svc EUR GBP live_world) = Inl (Rate_not_found EUR GBP [''USD'', ''UZS''])
   \<and> fst (get_rate svc JPY EUR live_world) = Inl (Rate_not_found JPY EUR [''USD'', ''UZS''])
   \<and> fst (get_rate svc JPY GBP live_world) = Inl (Rate_not_found JPY GBP [''USD'', ''UZS''])
   \<and> fst (get_rate svc USD UZS provider_down_world) = Inl Request_error
   \<and> fst (get_rate svc EUR GBP zero_rate_world) = Inr 0
   \<and> fst (get_rate svc GBP EUR zero_rate_world) = Inl (Rate_not_found GBP EUR [''USD'', ''GBP''])
   \<and> fst (get_rate svc GBP USD zero_rate_world) = Inl (Rate_not_found GBP USD [''USD'', ''GBP''])"
proof -
  let ?d = "\<lparr> rates = [(''USD'', 1.0869), (''UZS'', 13870.5)], base = EUR \<rparr>"
  let ?z = "\<lparr> rates = [(''USD'', 1.0869), (''GBP'', 0)], base = EUR \<rparr>"
  have fetch: "get_exchange_rates svc EUR (Some ts) live_world
      = (Inr ?d, emit (Http_get (build_params svc EUR (Some ts))) live_world)" for ts
    by (simp add: get_exchange_rates_def read_reply_def Let_def sample_defs)
  have fetch0: "get_exchange_rates svc EUR (Some ts) zero_rate_world
      = (Inr ?z, emit (Http_get (build_params svc EUR (Some ts))) zero_rate_world)" for ts
    by (simp add: get_exchange_rates_def read_reply_def Let_def sample_defs)
  have down: "get_exchange_rates svc EUR (Some ts) provider_down_world
      = (Inl Request_error, emit (Http_get (build_params svc EUR (Some ts))) provider_down_world)" for ts
    by (simp add: get_exchange_rates_def read_reply_def Let_def sample_defs)
  have usd: "map_of (rates ?d) (currency_value USD) = Some 1.0869" "(1.0869::real) \<noteq> 0"
    and uzs: "map_of (rates ?d) (currency_value UZS) = Some 13870.5" "(13870.5::real) \<noteq> 0"
    and gbp: "map_of (rates ?d) (currency_value GBP) = None"
    and jpy: "map_of (rates ?d) (currency_value JPY) = None"
    and keys: "map fst (rates ?d) = [''USD'', ''UZS'']"
    and gbp0: "map_of (rates ?z) (currency_value GBP) = Some 0"
    and keys0: "map fst (rates ?z) = [''USD'', ''GBP'']"
    by simp_all
  note present = get_rate_cases [where s = svc and c = USD and w = live_world
      and t = UZS and f = USD and ?d1.0 = ?d and ?d2.0 = ?d and ?d3.0 = ?d
      and r = "13870.5" and a = "1.0869" and b = "13870.5"
      and ?w1.0 = "emit (Http_get (build_params svc EUR (Some [UZS]))) live_world"
      and ?w2.0 = "emit (Http_get (build_params svc EUR (Some [USD]))) live_world"
      and ?w3.0 = "emit (Http_get (build_params svc EUR (Some [USD, UZS]))) live_world"]
  note missing = get_rate_cases [where s = svc and c = USD and w = live_world
      and t = GBP and f = JPY and ?d1.0 = ?d and ?d2.0 = ?d and ?d3.0 = ?d
      and ?w1.0 = "emit (Http_get (build_params svc EUR (Some [GBP]))) live_world"
      and ?w2.0 = "emit (Http_get (build_params svc EUR (Some [JPY]))) live_world"
      and ?w3.0 = "emit (Http_get (build_params svc EUR (Some [JPY, GBP]))) live_world"]
  note failed = get_rate_cases [where s = svc and c = USD and w = provider_down_world
      and t = UZS and f = USD and e = Request_error
      and ?w4.0 = "emit (Http_get (build_params svc EUR (Some (pair_targets USD UZS)))) provider_down_world"]
  note zero = get_rate_cases [where s = svc and c = USD and w = zero_rate_world
      and t = GBP and f = GBP and ?d1.0 = ?z and ?d2.0 = ?z and r = 0
      and ?w1.0 = "emit (Http_get (build_params svc EUR (Some [GBP]))) zero_rate_world"
      and ?w2.0 = "emit (Http_get (build_params svc EUR (Some [GBP]))) zero_rate_world"]
  note zero_cross = get_rate_cases [where s = svc and c = USD and w = zero_rate_world
      and t = USD and f = GBP and ?d3.0 = ?z
      and ?w3.0 = "emit (Http_get (build_params svc EUR (Some [GBP, USD]))) zero_rate_world"]
  have 1: "get_rate svc USD USD live_world = (Inr 1, live_world)"
    using present by blast
  have 2: "fst (get_rate svc EUR UZS live_world) = Inr 13870.5"
    using present fetch [of "[UZS]"] uzs by simp
  have 3: "fst (get_rate svc USD EUR live_world) = Inr (1 / 1.0869)"
    using present fetch [of "[USD]"] usd by simp
  have 4: "fst (get_rate svc USD UZS live_world) = Inr (13870.5 / 1.0869)"
    using present fetch [of "[USD, UZS]"] usd uzs by simp
  have 5: "fst (get_rate svc EUR GBP live_world) = Inl (Rate_not_found EUR GBP [''USD'', ''UZS''])"
    using missing fetch [of "[GBP]"] gbp keys by simp
  have 6: "fst (get_rate svc JPY EUR live_world) = Inl (Rate_not_found JPY EUR [''USD'', ''UZS''])"
    using missing fetch [of "[JPY]"] jpy keys by simp
  have 7: "fst (get_rate svc JPY GBP live_world) = Inl (Rate_not_found JPY GBP [''USD'', ''UZS''])"
    using missing fetch [of "[JPY, GBP]"] jpy gbp keys by simp
  have 8: "fst (get_rate svc USD UZS provider_down_world) = Inl Request_error"
    using failed down [of "pair_targets USD UZS"] by simp
  have 9: "fst (get_rate svc EUR GBP zero_rate_world) = Inr 0"
    using zero fetch0 [of "[GBP]"] gbp0 by simp
  have 10: "fst (get_rate svc GBP EUR zero_rate_world) = Inl (Rate_not_found GBP EUR [''USD'', ''GBP''])"
    using zero fetch0 [of "[GBP]"] gbp0 keys0 by simp
  have 11: "fst (get_rate svc GBP USD zero_rate_world) = Inl (Rate_not_found GBP USD [''USD'', ''GBP''])"
    using zero_cross fetch0 [of "[GBP, USD]"] gbp0 keys0 by simp
  from 1 2 3 4 5 6 7 8 9 10 11 show ?thesis by blast
qed

section \<open>Asking the provider directly\<close>

text \<open>
  Claim C10. With \<^verbatim>\<open>use_cache = False\<close> and two different currencies,
  \<^verbatim>\<open>get_rate_direct\<close> changes the world by exactly one HTTP request: no Redis command
  is sent and the database is as before. Its result is what the provider's reply gives and
  nothing else: a failed reply is the failure returned; a reply without the rate is
  \<^verbatim>\<open>Rate_not_found\<close>, whatever the fallback table holds; a reply with the rate is that
  rate. With \<^verbatim>\<open>use_cache = True\<close> the chain is followed: a cached rate is returned
  without asking the provider; after a miss, a rate the direct path finds is returned and
  written to the cache, and a failure of the direct path is replaced by the fallback rate
  when the table has the pair, and by \<^verbatim>\<open>Could_not_get_rate\<close> when it has not.
\<close>

theorem get_rate_direct_bypasses_cache:
  assumes "from_c \<noteq> to_c"
  shows "snd (get_rate_direct s from_c to_c False w)
           = emit (Http_get (build_params s EUR (Some (pair_targets from_c to_c)))) w
       \<and> redis_db (snd (get_rate_direct s from_c to_c False w)) = redis_db w
       \<and> \<not> list_ex is_redis_event (new_events w (snd (get_rate_direct s from_c to_c False w)))
       \<and> (read_reply s EUR (api w (events w) (build_params s EUR (Some (pair_targets from_c to_c)))) = Inl e
            \<longrightarrow> fst (get_rate_direct s from_c to_c False w) = Inl e)
       \<and> (read_reply s EUR (api w (events w) (build_params s EUR (Some (pair_targets from_c to_c)))) = Inr d
            \<and> provider_rate d from_c to_c = None
            \<longrightarrow> fst (get_rate_direct s from_c to_c False w)
                  = Inl (Rate_not_found from_c to_c (map fst (rates d))))
       \<and> (read_reply s EUR (api w (events w) (build_params s EUR (Some (pair_targets from_c to_c)))) = Inr d
            \<and> provider_rate d from_c to_c = Some r
            \<longrightarrow> fst (get_rate_direct s from_c to_c False w) = Inr r)
       \<and> (get_cached_rate (cache_key from_c to_c) w = (Some c, w1)
            \<longrightarrow> get_rate_direct s from_c to_c True w = (Inr c, w1))
       \<and> (get_cached_rate (cache_key from_c to_c) w = (None, w1)
            \<and> get_rate_direct s from_c to_c False w1 = (Inr r', w2)
            \<longrightarrow> get_rate_direct s from_c to_c True w
                  = (Inr r', cache_rate s (cache_key from_c to_c) r' w2))
       \<and> (get_cached_rate (cache_key from_c to_c) w = (None, w1)
            \<and> get_rate_direct s from_c to_c False w1 = (Inl e', w2)
            \<and> get_fallback_rate from_c to_c = Some fb
            \<longrightarrow> get_rate_direct s from_c to_c True w = (Inr fb, w2))
       \<and> (get_cached_rate (cache_key from_c to_c) w = (None, w1)
            \<and> get_rate_direct s from_c to_c False w1 = (Inl e', w2)
            \<and> get_fallback_rate from_c to_c = None
            \<longrightarrow> get_rate_direct s from_c to_c True w = (Inl (Could_not_get_rate from_c to_c), w2))"
proof -
  let ?p = "build_params s EUR (Some (pair_targets from_c to_c))"
  let ?direct = "get_rate_direct s from_c to_c False"
  have world: "snd (?direct w) = emit (Http_get ?p) w"
    using assms by (simp add: get_rate_direct_def get_rate_world)
  have db: "redis_db (snd (?direct w)) = redis_db w"
    by (simp add: world)
  have quiet: "\<not> list_ex is_redis_event (new_events w (snd (?direct w)))"
    by (simp add: world new_events_def)
  have val: "fst (?direct w) =
     (case read_reply s EUR (api w (events w) ?p) of
        Inl e \<Rightarrow> Inl e
      | Inr d \<Rightarrow>
          (case provider_rate d from_c to_c of
             None \<Rightarrow> Inl (Rate_not_found from_c to_c (map fst (rates d)))
           | Some r \<Rightarrow> Inr r))"
    using get_rate_value [OF assms, of s w] by (simp add: get_rate_direct_def)
  have failed: "fst (?direct w) = Inl e"
    if "read_reply s EUR (api w (events w) ?p) = Inl e"
    by (simp add: val that)
  have missing: "fst (?direct w) = Inl (Rate_not_found from_c to_c (map fst (rates d)))"
    if "read_reply s EUR (api w (events w) ?p) = Inr d" "provider_rate d from_c to_c = None"
    by (simp add: val that)
  have found: "fst (?direct w) = Inr r"
    if "read_reply s EUR (api w (events w) ?p) = Inr d" "provider_rate d from_c to_c = Some r"
    by (simp add: val that)
  have hit: "get_rate_direct s from_c to_c True w = (Inr c, w1)"
    if "get_cached_rate (cache_key from_c to_c) w = (Some c, w1)"
    by (simp add: get_rate_direct_def service_get_rate_def that)
  have fetched: "get_rate_direct s from_c to_c True w
      = (Inr r', cache_rate s (cache_key from_c to_c) r' w2)"
    if "get_cached_rate (cache_key from_c to_c) w = (None, w1)" "?direct w1 = (Inr r', w2)"
    using that by (simp add: get_rate_direct_def service_get_rate_def)
  have recovered: "get_rate_direct s from_c to_c True w = (Inr fb, w2)"
    if "get_cached_rate (cache_key from_c to_c) w = (None, w1)" "?direct w1 = (Inl e', w2)"
      "get_fallback_rate from_c to_c = Some fb"
    using that by (simp add: get_rate_direct_def service_get_rate_def)
  have exhausted: "get_rate_direct s from_c to_c True w = (Inl (Could_not_get_rate from_c to_c), w2)"
    if "get_cached_rate (cache_key from_c to_c) w = (None, w1)" "?direct w1 = (Inl e', w2)"
      "get_fallback_rate from_c to_c = None"
    using that by (simp add: get_rate_direct_def service_get_rate_def)
  from world db quiet failed missing found hit fetched recovered exhausted
  show ?thesis by blast
qed

theorem get_rate_direct_bypasses_cache_witness:
  "snd (get_rate_direct svc USD EUR False provider_down_world)
     = emit (Http_get \<lparr> access_key = Some ''key'', base_param = None, symbols = Some {USD} \<rparr>)
         provider_down_world
   \<and> redis_db (snd (get_rate_direct svc USD EUR False provider_down_world)) = redis_db provider_down_world
   \<and> \<not> list_ex is_redis_event
         (new_events provider_down_world (snd (get_rate_direct svc USD EUR False provider_down_world)))
   \<and> fst (get_rate_direct svc USD EUR False provider_down_world) = Inl Request_error
   \<and> get_fallback_rate USD EUR = Some 0.92
   \<and> fst (get_rate_direct svc USD EUR True provider_down_world) = Inr 0.92
   \<and> fst (get_rate_direct svc GBP USD False live_world)
       = Inl (Rate_not_found GBP USD [''USD'', ''UZS''])
   \<and> get_fallback_rate GBP USD = Some 1.27
   \<and> fst (get_rate_direct svc GBP USD True live_world) = Inr 1.27
   \<and> fst (get_rate_direct svc EUR USD False live_world) = Inr 1.0869
   \<and> fst (get_rate_direct svc EUR USD True live_world) = Inr 1.0869
   \<and> fst (get_rate_direct svc USD EUR False warm_world) = Inl Request_error
   \<and> fst (get_rate_direct svc USD EUR True warm_world) = Inr 0.9
   \<and> get_fallback_rate GBP JPY = None
   \<and> fst (get_rate_direct svc GBP JPY True provider_down_world) = Inl (Could_not_get_rate GBP JPY)"
proof -
  let ?d = "\<lparr> rates = [(''USD'', 1.0869), (''UZS'', 13870.5)], base = EUR \<rparr>"
  have live: "read_reply svc EUR (api live_world h q) = Inr ?d" for h q
    by (simp add: read_reply_def sample_defs)
  have down: "read_reply svc EUR (api provider_down_world h q) = Inl Request_error" for h q
    by (simp add: read_reply_def sample_defs)
  have warm: "read_reply svc EUR (api warm_world h q) = Inl Request_error" for h q
    by (simp add: read_reply_def sample_defs)
  have after: "api (snd (get_cached_rate k w)) = api w" for k w
    by (simp add: get_cached_rate_world)
  have miss_down: "get_cached_rate (cache_key f t) provider_down_world
      = (None, snd (get_cached_rate (cache_key f t) provider_down_world))" for f t
    by (simp add: prod_eq_iff get_cached_rate_value provider_down_world_def)
  have miss_live: "get_cached_rate (cache_key f t) live_world
      = (None, snd (get_cached_rate (cache_key f t) live_world))" for f t
    by (simp add: prod_eq_iff get_cached_rate_value live_world_def)
  have hit_warm: "get_cached_rate (cache_key USD EUR) warm_world
      = (Some 0.9, snd (get_cached_rate (cache_key USD EUR) warm_world))"
    by (simp add: prod_eq_iff get_cached_rate_value warm_world_def cache_key_def CACHE_PREFIX_def)
  have fb1: "get_fallback_rate USD EUR = Some 0.92"
    and fb2: "get_fallback_rate GBP USD = Some 1.27"
    and fb3: "get_fallback_rate GBP JPY = None"
    by (simp_all add: get_fallback_rate_def fallback_rates_def)
  have none: "provider_rate ?d GBP USD = None"
    and some: "provider_rate ?d EUR USD = Some 1.0869"
    and keys: "map fst (rates ?d) = [''USD'', ''UZS'']"
    by (simp_all add: provider_rate_def)
  have params: "build_params svc EUR (Some (pair_targets USD EUR))
      = \<lparr> access_key = Some ''key'', base_param = None, symbols = Some {USD} \<rparr>"
    by (simp add: build_params_def pair_targets_def svc_def)
  have ne: "USD \<noteq> EUR" "GBP \<noteq> USD" "EUR \<noteq> USD" "GBP \<noteq> JPY" by simp_all

  have down_after: "read_reply svc EUR (api (snd (get_cached_rate k provider_down_world)) h q)
      = Inl Request_error" for k h q
    by (simp add: after down)
  have live_after: "read_reply svc EUR (api (snd (get_cached_rate k live_world)) h q) = Inr ?d" for k h q
    by (simp add: after live)

  txt \<open>The provider cannot be reached: the direct path fails, the cached path falls back.\<close>
  let ?w1 = "snd (get_cached_rate (cache_key USD EUR) provider_down_world)"
  note a = get_rate_direct_bypasses_cache [OF ne(1), of svc provider_down_world Request_error,
      unfolded params]
  note a1 = get_rate_direct_bypasses_cache [OF ne(1), of svc ?w1 Request_error]
  have a_world: "snd (get_rate_direct svc USD EUR False provider_down_world)
      = emit (Http_get \<lparr> access_key = Some ''key'', base_param = None, symbols = Some {USD} \<rparr>)
          provider_down_world"
    using a by blast
  have a_db: "redis_db (snd (get_rate_direct svc USD EUR False provider_down_world))
      = redis_db provider_down_world"
    using a by blast
  have a_quiet: "\<not> list_ex is_redis_event
         (new_events provider_down_world (snd (get_rate_direct svc USD EUR False provider_down_world)))"
    using a by blast
  have a_direct: "fst (get_rate_direct svc USD EUR False provider_down_world) = Inl Request_error"
    using a down by blast
  have "fst (get_rate_direct svc USD EUR False ?w1) = Inl Request_error"
    using a1 down_after by blast
  then have "get_rate_direct svc USD EUR False ?w1
      = (Inl Request_error, snd (get_rate_direct svc USD EUR False ?w1))"
    by (simp add: prod_eq_iff)
  with a miss_down [of USD EUR] fb1
  have "get_rate_direct svc USD EUR True provider_down_world
      = (Inr 0.92, snd (get_rate_direct svc USD EUR False ?w1))"
    by blast
  then have a_cached: "fst (get_rate_direct svc USD EUR True provider_down_world) = Inr 0.92"
    by simp

  txt \<open>The reply lacks GBP: the direct path fails, the cached path falls back.\<close>
  let ?v1 = "snd (get_cached_rate (cache_key GBP USD) live_world)"
  note b = get_rate_direct_bypasses_cache [OF ne(2), of svc live_world _ ?d, unfolded keys]
  note b1 = get_rate_direct_bypasses_cache [OF ne(2), of svc ?v1 _ ?d, unfolded keys]
  have b_direct: "fst (get_rate_direct svc GBP USD False live_world)
      = Inl (Rate_not_found GBP USD [''USD'', ''UZS''])"
    using b live none by blast
  have "fst (get_rate_direct svc GBP USD False ?v1) = Inl (Rate_not_found GBP USD [''USD'', ''UZS''])"
    using b1 live_after none by blast
  then have "get_rate_direct svc GBP USD False ?v1
      = (Inl (Rate_not_found GBP USD [''USD'', ''UZS'']), snd (get_rate_direct svc GBP USD False ?v1))"
    by (simp add: prod_eq_iff)
  with b miss_live [of GBP USD] fb2
  have "get_rate_direct svc GBP USD True live_world
      = (Inr 1.27, snd (get_rate_direct svc GBP USD False ?v1))"
    by blast
  then have b_cached: "fst (get_rate_direct svc GBP USD True live_world) = Inr 1.27"
    by simp

  txt \<open>The reply has the rate: both paths return it.\<close>
  let ?u1 = "snd (get_cached_rate (cache_key EUR USD) live_world)"
  note c = get_rate_direct_bypasses_cache [OF ne(3), of svc live_world _ ?d "1.0869"]
  note c1 = get_rate_direct_bypasses_cache [OF ne(3), of svc ?u1 _ ?d "1.0869"]
  have c_direct: "fst (get_rate_direct svc EUR USD False live_world) = Inr 1.0869"
    using c live some by blast
  have "fst (get_rate_direct svc EUR USD False ?u1) = Inr 1.0869"
    using c1 live_after some by blast
  then have "get_rate_direct svc EUR USD False ?u1
      = (Inr 1.0869, snd (get_rate_direct svc EUR USD False ?u1))"
    by (simp add: prod_eq_iff)
  with c miss_live [of EUR USD]
  have "get_rate_direct svc EUR USD True live_world
      = (Inr 1.0869, cache_rate svc (cache_key EUR USD) 1.0869 (snd (get_rate_direct svc EUR USD False ?u1)))"
    by blast
  then have c_cached: "fst (get_rate_direct svc EUR USD True live_world) = Inr 1.0869"
    by simp

  txt \<open>The cache holds the rate: the cached path returns it, the direct path fails.\<close>
  note h = get_rate_direct_bypasses_cache [OF ne(1), of svc warm_world Request_error]
  have h_direct: "fst (get_rate_direct svc USD EUR False warm_world) = Inl Request_error"
    using h warm by blast
  from h hit_warm have "get_rate_direct svc USD EUR True warm_world
      = (Inr 0.9, snd (get_cached_rate (cache_key USD EUR) warm_world))"
    by blast
  then have h_cached: "fst (get_rate_direct svc USD EUR True warm_world) = Inr 0.9"
    by simp

  txt \<open>No fallback entry: the cached path fails too.\<close>
  let ?x1 = "snd (get_cached_rate (cache_key GBP JPY) provider_down_world)"
  note x = get_rate_direct_bypasses_cache [OF ne(4), of svc provider_down_world Request_error]
  note x1 = get_rate_direct_bypasses_cache [OF ne(4), of svc ?x1 Request_error]
  have "fst (get_rate_direct svc GBP JPY False ?x1) = Inl Request_error"
    using x1 down_after by blast
  then have "get_rate_direct svc GBP JPY False ?x1
      = (Inl Request_error, snd (get_rate_direct svc GBP JPY False ?x1))"
    by (simp add: prod_eq_iff)
  with x miss_down [of GBP JPY] fb3
  have "get_rate_direct svc GBP JPY True provider_down_world
      = (Inl (Could_not_get_rate GBP JPY), snd (get_rate_direct svc GBP JPY False ?x1))"
    by blast
  then have x_cached: "fst (get_rate_direct svc GBP JPY True provider_down_world)
      = Inl (Could_not_get_rate GBP JPY)"
    by simp

  from a_world a_db a_quiet a_direct fb1 a_cached b_direct fb2 b_cached c_direct c_cached
    h_direct h_cached fb3 x_cached
  show ?thesis by blast
qed

section \<open>A conversion that misses the cache\<close>

text \<open>
  Claim C1 says that a rate fetched from the provider is cached and reported with
  \<^verbatim>\<open>cached = False\<close>. The code caches it, and then \<^verbatim>\<open>_was_cached\<close> reads the cache
  again and finds the rate it has just written: with a client and a server that answers,
  a lookup that misses and a fetch that succeeds, the rate is stored under the key with the
  configured TTL and the response says \<^verbatim>\<open>cached = True\<close>.
\<close>

theorem fresh_rate_reported_as_cached:
  assumes "0 < amount req" and "from_currency req \<noteq> to_currency req"
    and "redis_client w" and "redis_up w"
    and miss: "get_cached_rate (cache_key (from_currency req) (to_currency req)) w = (None, w1)"
    and fetched: "get_rate s (from_currency req) (to_currency req) w1 = (Inr r, w2)"
  shows "\<exists>w'. convert s req w =
           (Inr \<lparr> resp_amount = amount req,
                  resp_from_currency = from_currency req,
                  resp_to_currency = to_currency req,
                  converted_amount = round2 (amount req * r),
                  rate = r,
                  cached = True \<rparr>, w')
         \<and> redis_db w' (cache_key (from_currency req) (to_currency req)) = Some (Json_float r, ttl s)"
proof -
  let ?key = "cache_key (from_currency req) (to_currency req)"
  let ?w3 = "cache_rate s ?key r w2"
  have w1: "w1 = emit (Redis_get ?key) w"
    using miss get_cached_rate_world [of ?key w] \<open>redis_client w\<close> by simp
  have w2: "w2 = emit (Http_get (build_params s EUR (Some (pair_targets (from_currency req) (to_currency req))))) w1"
    using fetched get_rate_world [OF assms(2), of s w1] by simp
  have up: "redis_client w2" "redis_up w2"
    using assms(3,4) by (simp_all add: w1 w2)
  have db: "redis_db ?w3 ?key = Some (Json_float r, ttl s)" and up3: "redis_client ?w3" "redis_up ?w3"
    using up by (simp_all add: cache_rate_world)
  have hit: "fst (get_cached_rate ?key ?w3) = Some r"
    using db up3 by (simp add: get_cached_rate_value)
  have db': "redis_db (snd (get_cached_rate ?key ?w3)) ?key = Some (Json_float r, ttl s)"
    using db by (simp add: get_cached_rate_world)
  have "convert s req w =
      (Inr \<lparr> resp_amount = amount req, resp_from_currency = from_currency req,
             resp_to_currency = to_currency req, converted_amount = round2 (amount req * r),
             rate = r, cached = True \<rparr>, snd (get_cached_rate ?key ?w3))"
    using assms(1,2) miss fetched hit
    by (simp add: convert_def service_get_rate_def was_cached_def split_beta Let_def)
  with db' show ?thesis by blast
qed

theorem fresh_rate_reported_as_cached_witness:
  "(0::real) < amount \<lparr> amount = 100, from_currency = EUR, to_currency = USD \<rparr>
   \<and> fst (get_cached_rate (cache_key EUR USD) live_world) = None
   \<and> fst (get_rate svc EUR USD (snd (get_cached_rate (cache_key EUR USD) live_world))) = Inr 1.0869
   \<and> (\<exists>w'. convert svc \<lparr> amount = 100, from_currency = EUR, to_currency = USD \<rparr> live_world =
           (Inr \<lparr> resp_amount = 100, resp_from_currency = EUR, resp_to_currency = USD,
                  converted_amount = 108.69, rate = 1.0869, cached = True \<rparr>, w')
         \<and> redis_db w' ''exchange_rate:EUR:USD'' = Some (Json_float 1.0869, 1800))"
proof -
  let ?req = "\<lparr> amount = 100, from_currency = EUR, to_currency = USD \<rparr>"
  let ?w1 = "snd (get_cached_rate (cache_key EUR USD) live_world)"
  let ?w2 = "snd (get_rate svc EUR USD ?w1)"
  have pos: "0 < amount ?req" and ne: "from_currency ?req \<noteq> to_currency ?req" by simp_all
  have up: "redis_client live_world" "redis_up live_world" by (simp_all add: live_world_def)
  have miss: "fst (get_cached_rate (cache_key EUR USD) live_world) = None"
    by (simp add: get_cached_rate_value live_world_def)
  have fetched: "fst (get_rate svc EUR USD ?w1) = Inr 1.0869"
    by (simp add: get_cached_rate_world client_defs Let_def sample_defs)
  have m: "get_cached_rate (cache_key (from_currency ?req) (to_currency ?req)) live_world = (None, ?w1)"
    using miss by (simp add: prod_eq_iff)
  have f: "get_rate svc (from_currency ?req) (to_currency ?req) ?w1 = (Inr 1.0869, ?w2)"
    using fetched by (simp add: prod_eq_iff)
  have r2: "round2 (10869 / 100) = 10869 / 100"
    by (simp add: round2_def round_half_even_def Let_def)
  from fresh_rate_reported_as_cached [OF pos ne up m f]
  have "\<exists>w'. convert svc ?req live_world =
           (Inr \<lparr> resp_amount = 100, resp_from_currency = EUR, resp_to_currency = USD,
                  converted_amount = 108.69, rate = 1.0869, cached = True \<rparr>, w')
         \<and> redis_db w' ''exchange_rate:EUR:USD'' = Some (Json_float 1.0869, 1800)"
    by (simp add: cache_key_def CACHE_PREFIX_def svc_def r2)
  with pos miss fetched show ?thesis by blast
qed

section \<open>The fallback table\<close>

text \<open>
  Claim C2. For a positive amount and two different currencies, when the cache lookup
  misses, the provider fails and the fallback table has the pair, \<^verbatim>\<open>convert\<close> succeeds
  with the fallback rate and \<^verbatim>\<open>cached = False\<close>; the database is as before and no
  \<^verbatim>\<open>SETEX\<close> was sent; and the same request, made again, misses the cache again and sends
  a request to the provider.
\<close>

theorem fallback_is_not_cached:
  assumes pos: "0 < amount req" and ne: "from_currency req \<noteq> to_currency req"
    and miss: "get_cached_rate (cache_key (from_currency req) (to_currency req)) w = (None, w1)"
    and failed: "get_rate s (from_currency req) (to_currency req) w1 = (Inl e, w2)"
    and fb: "get_fallback_rate (from_currency req) (to_currency req) = Some fallback"
  shows "\<exists>w3. convert s req w =
           (Inr \<lparr> resp_amount = amount req,
                  resp_from_currency = from_currency req,
                  resp_to_currency = to_currency req,
                  converted_amount = round2 (amount req * fallback),
                  rate = fallback,
                  cached = False \<rparr>, w3)
         \<and> redis_db w3 = redis_db w
         \<and> \<not> list_ex is_setex (new_events w w3)
         \<and> fst (get_cached_rate (cache_key (from_currency req) (to_currency req)) w3) = None
         \<and> list_ex is_http_get (new_events w3 (snd (convert s req w3)))"
proof -
  let ?key = "cache_key (from_currency req) (to_currency req)"
  let ?w3 = "snd (get_cached_rate ?key w2)"
  have w1: "w1 = (if redis_client w then emit (Redis_get ?key) w else w)"
    using miss get_cached_rate_world [of ?key w] by simp
  have w2: "w2 = emit (Http_get (build_params s EUR (Some (pair_targets (from_currency req) (to_currency req))))) w1"
    using failed get_rate_world [OF ne, of s w1] by simp
  have none: "fst (get_cached_rate ?key w) = None"
    using miss by simp
  have again: "fst (get_cached_rate ?key w2) = None"
    using none get_cached_rate_same_store [of w2 w ?key] by (simp add: w1 w2)
  have conv: "convert s req w =
      (Inr \<lparr> resp_amount = amount req, resp_from_currency = from_currency req,
             resp_to_currency = to_currency req,
             converted_amount = round2 (amount req * fallback),
             rate = fallback, cached = False \<rparr>, ?w3)"
    using pos ne miss failed fb again
    by (simp add: convert_def service_get_rate_def was_cached_def split_beta Let_def)
  have db: "redis_db ?w3 = redis_db w"
    by (simp add: get_cached_rate_world w1 w2)
  have no_write: "\<not> list_ex is_setex (new_events w ?w3)"
    by (simp add: get_cached_rate_world w1 w2 new_events_def)
  have third: "fst (get_cached_rate ?key ?w3) = None"
    using none get_cached_rate_same_store [of ?w3 w ?key]
    by (simp add: get_cached_rate_world w1 w2)
  have "list_ex is_http_get (new_events ?w3 (snd (convert s req ?w3)))"
    using pos ne third by (rule convert_miss_reaches_provider)
  with conv db no_write third show ?thesis by blast
qed

theorem fallback_is_not_cached_witness:
  "(0::real) < amount \<lparr> amount = 100, from_currency = USD, to_currency = EUR \<rparr>
   \<and> fst (get_cached_rate (cache_key USD EUR) provider_down_world) = None
   \<and> fst (get_rate svc USD EUR (snd (get_cached_rate (cache_key USD EUR) provider_down_world)))
       = Inl Request_error
   \<and> get_fallback_rate USD EUR = Some 0.92
   \<and> (\<exists>w3. convert svc \<lparr> amount = 100, from_currency = USD, to_currency = EUR \<rparr> provider_down_world =
           (Inr \<lparr> resp_amount = 100, resp_from_currency = USD, resp_to_currency = EUR,
                  converted_amount = 92, rate = 0.92, cached = False \<rparr>, w3)
         \<and> redis_db w3 = redis_db provider_down_world
         \<and> \<not> list_ex is_setex (new_events provider_down_world w3)
         \<and> fst (get_cached_rate (cache_key USD EUR) w3) = None
         \<and> list_ex is_http_get
             (new_events w3 (snd (convert svc \<lparr> amount = 100, from_currency = USD, to_currency = EUR \<rparr> w3))))"
proof -
  let ?req = "\<lparr> amount = 100, from_currency = USD, to_currency = EUR \<rparr>"
  let ?w1 = "snd (get_cached_rate (cache_key USD EUR) provider_down_world)"
  let ?w2 = "snd (get_rate svc USD EUR ?w1)"
  have pos: "0 < amount ?req" and ne: "from_currency ?req \<noteq> to_currency ?req" by simp_all
  have miss: "fst (get_cached_rate (cache_key USD EUR) provider_down_world) = None"
    by (simp add: get_cached_rate_value provider_down_world_def)
  have failed: "fst (get_rate svc USD EUR ?w1) = Inl Request_error"
    by (simp add: get_cached_rate_world client_defs Let_def sample_defs)
  have fb: "get_fallback_rate USD EUR = Some 0.92"
    by (simp add: get_fallback_rate_def fallback_rates_def)
  have m: "get_cached_rate (cache_key (from_currency ?req) (to_currency ?req)) provider_down_world = (None, ?w1)"
    using miss by (simp add: prod_eq_iff)
  have f: "get_rate svc (from_currency ?req) (to_currency ?req) ?w1 = (Inl Request_error, ?w2)"
    using failed by (simp add: prod_eq_iff)
  have fb': "get_fallback_rate (from_currency ?req) (to_currency ?req) = Some 0.92"
    using fb by simp
  have r2: "round2 92 = 92"
    by (simp add: round2_def round_half_even_def Let_def)
  from fallback_is_not_cached [OF pos ne m f fb']
  have "\<exists>w3. convert svc ?req provider_down_world =
           (Inr \<lparr> resp_amount = 100, resp_from_currency = USD, resp_to_currency = EUR,
                  converted_amount = 92, rate = 0.92, cached = False \<rparr>, w3)
         \<and> redis_db w3 = redis_db provider_down_world
         \<and> \<not> list_ex is_setex (new_events provider_down_world w3)
         \<and> fst (get_cached_rate (cache_key USD EUR) w3) = None
         \<and> list_ex is_http_get (new_events w3 (snd (convert svc ?req w3)))"
    by (simp add: r2)
  with pos miss failed fb show ?thesis by blast
qed

section \<open>The scenario of 100 USD in UZS\<close>

lemma round2_scenario: "round2 (100 * (13870.5 / 1.0869)) = 1276152.36"
  by (simp add: round2_def round_half_even_def Let_def)

text \<open>
  Claim C9 gives the rate as about 12762.9 and the converted amount as about 1276290.00.
  From the snapshot \<^verbatim>\<open>{USD: 1.0869, UZS: 13870.5}\<close> the code derives 13870.5 / 1.0869,
  which is more than 1 away from 12762.9, and a converted amount more than 137 away from
  1276290.00.
\<close>

theorem usd_uzs_scenario_numbers_off:
  "fst (convert svc \<lparr> amount = 100, from_currency = USD, to_currency = UZS \<rparr> live_world)
     = Inr \<lparr> resp_amount = 100, resp_from_currency = USD, resp_to_currency = UZS,
             converted_amount = 1276152.36, rate = 13870.5 / 1.0869, cached = True \<rparr>
   \<and> 1 < \<bar>13870.5 / 1.0869 - (12762.9::real)\<bar>
   \<and> 137 < \<bar>1276152.36 - (1276290.00::real)\<bar>"
  by (simp add: service_defs client_defs cache_defs sample_defs round2_def round_half_even_def Let_def)

text \<open>
  Claim C9, amended. When the cache lookup misses and the provider answers with the
  EUR-based snapshot \<^verbatim>\<open>{USD: 1.0869, UZS: 13870.5}\<close>, converting 100 USD to UZS gives
  the rate 13870.5 / 1.0869, which is 12761.52 to within 0.01, and the converted amount
  1276152.36, the product rounded to two decimal places.
\<close>

theorem usd_uzs_scenario:
  assumes miss: "get_cached_rate (cache_key USD UZS) w = (None, w1)"
    and reply: "api w1 (events w1) (build_params s EUR (Some [USD, UZS])) = Json snapshot_body"
  shows "\<exists>r w'. convert s \<lparr> amount = 100, from_currency = USD, to_currency = UZS \<rparr> w = (Inr r, w')
           \<and> rate r = 13870.5 / 1.0869
           \<and> \<bar>rate r - 12761.52\<bar> < 0.01
           \<and> converted_amount r = 1276152.36"
proof -
  have d: "read_reply s EUR (api w1 (events w1) (build_params s EUR (Some [USD, UZS])))
      = Inr \<lparr> rates = [(''USD'', 1.0869), (''UZS'', 13870.5)], base = (if api_key s \<noteq> [] then EUR else EUR) \<rparr>"
    by (simp add: reply read_reply_def snapshot_body_def)
  have "fst (get_rate s USD UZS w1) = Inr (13870.5 / 1.0869)"
    by (rule get_rate_cross [OF _ _ _ d]) simp_all
  then obtain w2 where g: "get_rate s USD UZS w1 = (Inr (13870.5 / 1.0869), w2)"
    by (cases "get_rate s USD UZS w1") simp
  obtain c w3 where wc: "was_cached (cache_key USD UZS) (13870.5 / 1.0869)
      (cache_rate s (cache_key USD UZS) (13870.5 / 1.0869) w2) = (c, w3)"
    by (cases "was_cached (cache_key USD UZS) (13870.5 / 1.0869)
      (cache_rate s (cache_key USD UZS) (13870.5 / 1.0869) w2)")
  have "convert s \<lparr> amount = 100, from_currency = USD, to_currency = UZS \<rparr> w =
      (Inr \<lparr> resp_amount = 100, resp_from_currency = USD, resp_to_currency = UZS,
             converted_amount = round2 (100 * (13870.5 / 1.0869)),
             rate = 13870.5 / 1.0869, cached = c \<rparr>, w3)"
    using miss g wc by (simp add: convert_def service_get_rate_def)
  with round2_scenario show ?thesis
    by simp
qed

theorem usd_uzs_scenario_witness:
  "get_cached_rate (cache_key USD UZS) live_world = (None, emit (Redis_get ''exchange_rate:USD:UZS'') live_world)
   \<and> (\<exists>r w'. convert svc \<lparr> amount = 100, from_currency = USD, to_currency = UZS \<rparr> live_world = (Inr r, w')
           \<and> rate r = 13870.5 / 1.0869
           \<and> \<bar>rate r - 12761.52\<bar> < 0.01
           \<and> converted_amount r = 1276152.36)"
proof -
  have miss: "get_cached_rate (cache_key USD UZS) live_world = (None, emit (Redis_get ''exchange_rate:USD:UZS'') live_world)"
    by (simp add: get_cached_rate_def cache_defs cache_key_def CACHE_PREFIX_def live_world_def)
  have reply: "api (emit (Redis_get ''exchange_rate:USD:UZS'') live_world)
      (events (emit (Redis_get ''exchange_rate:USD:UZS'') live_world))
      (build_params svc EUR (Some [USD, UZS])) = Json snapshot_body"
    by (simp add: live_world_def)
  from usd_uzs_scenario [OF miss reply] miss show ?thesis by blast
qed

section \<open>Batches\<close>











section \<open>Many rates from one snapshot\<close>

lemma currency_value_inj: "currency_value a = currency_value b \<longleftrightarrow> a = b"
  by (cases a; cases b; simp)

lemma loop_step:
  "multiple_rates_loop f d (t # ts) acc =
     multiple_rates_loop f d ts
       (case snapshot_rate d f t of
          None \<Rightarrow> acc
        | Some r \<Rightarrow> AList.update (currency_value t) r acc)"
  by (simp add: snapshot_rate_def priced_def truthy_def Let_def split: option.splits)

lemma loop_map_of:
  "map_of (multiple_rates_loop f d ts acc) (currency_value t) =
     (if t \<in> set ts \<and> snapshot_rate d f t \<noteq> None then snapshot_rate d f t
      else map_of acc (currency_value t))"
proof (induction ts arbitrary: acc)
  case Nil
  then show ?case by simp
next
  case (Cons u ts)
  show ?case
    unfolding loop_step Cons.IH
    by (auto simp add: update_conv' currency_value_inj split: option.splits)
qed

lemma loop_keys:
  "fst ` set (multiple_rates_loop f d ts acc) \<subseteq> fst ` set acc \<union> currency_value ` set ts"
proof (induction ts arbitrary: acc)
  case Nil
  then show ?case by simp
next
  case (Cons u ts)
  show ?case
    unfolding loop_step
    using Cons.IH [of "case snapshot_rate d f u of None \<Rightarrow> acc
        | Some r \<Rightarrow> AList.update (currency_value u) r acc"]
    by (auto simp add: dom_update split: option.splits)
qed

lemma loop_distinct:
  "distinct (map fst acc) \<Longrightarrow> distinct (map fst (multiple_rates_loop f d ts acc))"
proof (induction ts arbitrary: acc)
  case Nil
  then show ?case by simp
next
  case (Cons u ts)
  show ?case
    unfolding loop_step
    using Cons.prems by (intro Cons.IH) (simp add: distinct_update split: option.splits)
qed

lemma update_not_Nil: "AList.update k v al \<noteq> []"
  by (cases al) simp_all

lemma loop_empty:
  "multiple_rates_loop f d ts acc = [] \<longleftrightarrow>
     acc = [] \<and> (\<forall>t \<in> set ts. snapshot_rate d f t = None)"
proof (induction ts arbitrary: acc)
  case Nil
  then show ?case by simp
next
  case (Cons u ts)
  show ?case
    unfolding loop_step Cons.IH
    by (auto simp add: update_not_Nil split: option.splits)
qed

lemma fetch_params:
  "build_params s EUR
     (if filter (\<lambda>c. c \<noteq> EUR) (f # ts) \<noteq> [] then Some (filter (\<lambda>c. c \<noteq> EUR) (f # ts)) else None)
   = \<lparr> access_key = (if api_key s \<noteq> [] then Some (api_key s) else None),
       base_param = (if api_key s \<noteq> [] then None else Some ''EUR''),
       symbols = (if set (f # ts) - {EUR} = {} then None else Some (set (f # ts) - {EUR})) \<rparr>"
proof -
  have set_eq: "set (filter (\<lambda>c. c \<noteq> EUR) (f # ts)) = set (f # ts) - {EUR}"
    by auto
  have "filter (\<lambda>c. c \<noteq> EUR) (f # ts) = [] \<longleftrightarrow> set (f # ts) - {EUR} = {}"
    using set_eq by (metis set_empty)
  then show ?thesis
    using set_eq by (simp add: build_params_def del: filter.simps set_simps)
qed

text \<open>
  Claim C5. For every source currency and list of targets, \<^verbatim>\<open>get_multiple_rates\<close>
  sends exactly one request: the EUR-based snapshot for the set of all the currencies
  asked for but EUR itself (no \<^verbatim>\<open>symbols\<close> when that set is empty). A failure of the
  fetch is handed on. From the snapshot it derives the result mapping: a target has an
  entry exactly when its pair rate is derivable from the snapshot, and the entry is that
  rate; targets that are not derivable are left out, and the call fails with
  \<^verbatim>\<open>No_rates_found\<close> exactly when no target is derivable, that is when the mapping is
  empty.
\<close>

theorem get_multiple_rates_single_snapshot:
  assumes p: "p = \<lparr> access_key = (if api_key s \<noteq> [] then Some (api_key s) else None),
                    base_param = (if api_key s \<noteq> [] then None else Some ''EUR''),
                    symbols = (if set (f # ts) - {EUR} = {} then None
                               else Some (set (f # ts) - {EUR})) \<rparr>"
  shows "snd (get_multiple_rates s f ts w) = emit (Http_get p) w
       \<and> new_events w (snd (get_multiple_rates s f ts w)) = [Http_get p]
       \<and> (read_reply s EUR (api w (events w) p) = Inl e
            \<longrightarrow> fst (get_multiple_rates s f ts w) = Inl e)
       \<and> (read_reply s EUR (api w (events w) p) = Inr d \<longrightarrow>
            (\<exists>m. fst (get_multiple_rates s f ts w) =
                    (if m = [] then Inl (No_rates_found f ts) else Inr m)
                \<and> (m = [] \<longleftrightarrow> (\<forall>t \<in> set ts. snapshot_rate d f t = None))
                \<and> distinct (map fst m)
                \<and> fst ` set m \<subseteq> currency_value ` set ts
                \<and> (\<forall>t. map_of m (currency_value t) =
                         (if t \<in> set ts then snapshot_rate d f t else None))))"
proof -
  let ?targets = "if filter (\<lambda>c. c \<noteq> EUR) (f # ts) \<noteq> []
                  then Some (filter (\<lambda>c. c \<noteq> EUR) (f # ts)) else None"
  have params: "build_params s EUR ?targets = p"
    unfolding p by (rule fetch_params)
  have fetch: "get_exchange_rates s EUR ?targets w =
      (read_reply s EUR (api w (events w) p), emit (Http_get p) w)"
    by (simp only: get_exchange_rates_def Let_def params)
  have unfold: "get_multiple_rates s f ts w =
      (case read_reply s EUR (api w (events w) p) of
         Inl e \<Rightarrow> (Inl e, emit (Http_get p) w)
       | Inr d \<Rightarrow>
           (if multiple_rates_loop f d ts [] = [] then (Inl (No_rates_found f ts), emit (Http_get p) w)
            else (Inr (multiple_rates_loop f d ts []), emit (Http_get p) w)))"
    by (simp only: get_multiple_rates_def Let_def fetch prod.case)
  have world: "snd (get_multiple_rates s f ts w) = emit (Http_get p) w"
    by (simp add: unfold split: sum.splits)
  have one: "new_events w (snd (get_multiple_rates s f ts w)) = [Http_get p]"
    by (simp add: world new_events_def)
  have failed: "fst (get_multiple_rates s f ts w) = Inl e"
    if "read_reply s EUR (api w (events w) p) = Inl e"
    by (simp add: unfold that)
  have derived: "\<exists>m. fst (get_multiple_rates s f ts w) =
                    (if m = [] then Inl (No_rates_found f ts) else Inr m)
                \<and> (m = [] \<longleftrightarrow> (\<forall>t \<in> set ts. snapshot_rate d f t = None))
                \<and> distinct (map fst m)
                \<and> fst ` set m \<subseteq> currency_value ` set ts
                \<and> (\<forall>t. map_of m (currency_value t) =
                         (if t \<in> set ts then snapshot_rate d f t else None))"
    if "read_reply s EUR (api w (events w) p) = Inr d"
  proof -
    let ?m = "multiple_rates_loop f d ts []"
    have 1: "fst (get_multiple_rates s f ts w) =
        (if ?m = [] then Inl (No_rates_found f ts) else Inr ?m)"
      by (simp add: unfold that)
    have 2: "?m = [] \<longleftrightarrow> (\<forall>t \<in> set ts. snapshot_rate d f t = None)"
      by (simp add: loop_empty)
    have 3: "distinct (map fst ?m)"
      by (rule loop_distinct) simp
    have 4: "fst ` set ?m \<subseteq> currency_value ` set ts"
      using loop_keys [of f d ts "[]"] by simp
    have 5: "\<forall>t. map_of ?m (currency_value t) =
        (if t \<in> set ts then snapshot_rate d f t else None)"
      by (auto simp add: loop_map_of)
    from 1 2 3 4 5 show ?thesis by blast
  qed
  from world one failed derived show ?thesis by blast
qed

theorem get_multiple_rates_single_snapshot_witness:
  "read_reply svc EUR (api live_world (events live_world)
       \<lparr> access_key = Some ''key'', base_param = None, symbols = Some {USD, UZS, GBP} \<rparr>)
     = Inr \<lparr> rates = [(''USD'', 1.0869), (''UZS'', 13870.5)], base = EUR \<rparr>
   \<and> new_events live_world (snd (get_multiple_rates svc USD [UZS, EUR, GBP, USD] live_world))
     = [Http_get \<lparr> access_key = Some ''key'', base_param = None, symbols = Some {USD, UZS, GBP} \<rparr>]
   \<and> fst (get_multiple_rates svc USD [UZS, EUR, GBP, USD] live_world)
     = Inr [(''UZS'', 13870.5 / 1.0869), (''EUR'', 1 / 1.0869), (''USD'', 1)]
   \<and> fst (get_multiple_rates svc GBP [JPY, INR] live_world) = Inl (No_rates_found GBP [JPY, INR])
   \<and> fst (get_multiple_rates svc USD [UZS] provider_down_world) = Inl Request_error"
proof -
  let ?d = "\<lparr> rates = [(''USD'', 1.0869), (''UZS'', 13870.5)], base = EUR \<rparr>"
  let ?p = "\<lparr> access_key = Some ''key'', base_param = None, symbols = Some {USD, UZS, GBP} \<rparr>"
  have reply: "read_reply svc EUR (api live_world (events live_world) q) = Inr ?d" for q
    by (simp add: read_reply_def sample_defs)
  have down: "read_reply svc EUR (api provider_down_world (events provider_down_world) q)
      = Inl Request_error" for q
    by (simp add: read_reply_def sample_defs)
  have p: "\<lparr> access_key = (if api_key svc \<noteq> [] then Some (api_key svc) else None),
             base_param = (if api_key svc \<noteq> [] then None else Some ''EUR''),
             symbols = (if set (USD # [UZS, EUR, GBP, USD]) - {EUR} = {} then None
                        else Some (set (USD # [UZS, EUR, GBP, USD]) - {EUR})) \<rparr> = ?p"
    by (auto simp add: svc_def)
  note many = get_multiple_rates_single_snapshot [OF refl, of svc USD "[UZS, EUR, GBP, USD]" live_world,
      unfolded p]
  have one: "new_events live_world (snd (get_multiple_rates svc USD [UZS, EUR, GBP, USD] live_world))
      = [Http_get ?p]"
    using many by blast
  have computed: "fst (get_multiple_rates svc USD [UZS, EUR, GBP, USD] live_world)
      = Inr [(''UZS'', 13870.5 / 1.0869), (''EUR'', 1 / 1.0869), (''USD'', 1)]"
    by (simp add: get_multiple_rates_def get_exchange_rates_def reply truthy_def Let_def)
  have none: "\<forall>t \<in> set [JPY, INR]. snapshot_rate ?d GBP t = None"
    by (simp add: snapshot_rate_def priced_def)
  from get_multiple_rates_single_snapshot [OF refl, of svc GBP "[JPY, INR]" live_world _ ?d] reply
  obtain m where "fst (get_multiple_rates svc GBP [JPY, INR] live_world) =
                    (if m = [] then Inl (No_rates_found GBP [JPY, INR]) else Inr m)"
    and "m = [] \<longleftrightarrow> (\<forall>t \<in> set [JPY, INR]. snapshot_rate ?d GBP t = None)"
    by blast
  with none have empty: "fst (get_multiple_rates svc GBP [JPY, INR] live_world)
      = Inl (No_rates_found GBP [JPY, INR])"
    by simp
  from get_multiple_rates_single_snapshot [OF refl, of svc USD "[UZS]" provider_down_world Request_error] down
  have failed: "fst (get_multiple_rates svc USD [UZS] provider_down_world) = Inl Request_error"
    by blast
  from reply [of ?p] one computed empty failed show ?thesis by blast
qed

end
